theory Spec2Isabelle
  imports Complex_Main "HOL-Library.Word" "HOL-Library.Sublist"
begin

section \<open>Python values\<close>

text \<open>
  The service of \<^verbatim>\<open>app.py\<close> handles the values Python builds from JSON and the rows
  it hands to the warehouse client. Both are built from \<^verbatim>\<open>None\<close>, booleans,
  integers, floats, strings, lists and dicts. A float is the real number it denotes, or one
  of the three special values; a dict is the list of its items in insertion order.
\<close>

datatype py_float = Finite real | PosInf | NegInf | NaN

datatype py_value =
    PNone
  | PBool bool
  | PInt int
  | PFloat py_float
  | PStr string
  | PList "py_value list"
  | PDict "(string \<times> py_value) list"

text \<open>Truthiness, as \<^verbatim>\<open>not x\<close> and \<^verbatim>\<open>if x:\<close> test it.\<close>

fun truthy :: "py_value \<Rightarrow> bool" where
  "truthy PNone = False"
| "truthy (PBool b) = b"
| "truthy (PInt i) = (i \<noteq> 0)"
| "truthy (PFloat f) = (f \<noteq> Finite 0)"
| "truthy (PStr s) = (s \<noteq> [])"
| "truthy (PList xs) = (xs \<noteq> [])"
| "truthy (PDict kvs) = (kvs \<noteq> [])"

text \<open>
  Two kinds of failure occur. An \<open>interpreter_error\<close> is raised by Python itself when an
  operator meets a value of the wrong type; in this program that happens only outside the
  \<^verbatim>\<open>try\<close> block. A \<open>py_exception\<close> is an instance of (a subclass of)
  \<^verbatim>\<open>Exception\<close> raised by a client library or by the loader; it carries the text
  that \<^verbatim>\<open>str(e)\<close> gives.
\<close>

datatype interpreter_error = TypeError | KeyError

datatype py_exception = Exception string

fun exc_str :: "py_exception \<Rightarrow> string" where
  "exc_str (Exception s) = s"

text \<open>
  \<^verbatim>\<open>key in x\<close> for a string key: key membership on a dict, element equality on a
  list, substring search on a string, and a TypeError on every value that is no container.
\<close>

fun py_contains :: "py_value \<Rightarrow> string \<Rightarrow> interpreter_error + bool" where
  "py_contains (PDict kvs) k = Inr (k \<in> set (map fst kvs))"
| "py_contains (PList xs) k = Inr (PStr k \<in> set xs)"
| "py_contains (PStr s) k = Inr (sublist k s)"
| "py_contains PNone k = Inl TypeError"
| "py_contains (PBool b) k = Inl TypeError"
| "py_contains (PInt i) k = Inl TypeError"
| "py_contains (PFloat f) k = Inl TypeError"

text \<open>
  \<^verbatim>\<open>x[key]\<close> for a string key: a dict looks the key up (KeyError when it is missing);
  lists and strings take integer indices only, and the other values have no subscript.
\<close>

fun py_getitem :: "py_value \<Rightarrow> string \<Rightarrow> interpreter_error + py_value" where
  "py_getitem (PDict kvs) k = (case map_of kvs k of None \<Rightarrow> Inl KeyError | Some v \<Rightarrow> Inr v)"
| "py_getitem PNone k = Inl TypeError"
| "py_getitem (PBool b) k = Inl TypeError"
| "py_getitem (PInt i) k = Inl TypeError"
| "py_getitem (PFloat f) k = Inl TypeError"
| "py_getitem (PStr s) k = Inl TypeError"
| "py_getitem (PList xs) k = Inl TypeError"

subsection \<open>Text of integers\<close>

text \<open>\<^verbatim>\<open>str(n)\<close> of an integer: its decimal digits, with a minus sign when negative.\<close>

definition digit_char :: "nat \<Rightarrow> char" where
  "digit_char d = ''0123456789'' ! d"

fun digits10 :: "nat \<Rightarrow> string" where
  "digits10 n = (if n < 10 then [digit_char n] else digits10 (n div 10) @ [digit_char (n mod 10)])"

declare digits10.simps [simp del]

definition py_str_int :: "int \<Rightarrow> string" where
  "py_str_int i = (if i < 0 then CHR ''-'' # digits10 (nat (- i)) else digits10 (nat i))"

subsection \<open>True division of integers\<close>

text \<open>
  \<^verbatim>\<open>n / d\<close> on two Python integers is the quotient rounded once to the nearest
  binary64 float, ties to even. \<open>bit_length\<close> is \<^verbatim>\<open>int.bit_length\<close>;
  \<open>binary_exponent a b\<close> is the integer \<open>p\<close> with \<open>2^p \<le> a / b < 2^(p+1)\<close>;
  the quotient is scaled to a 53-bit significand, rounded, and scaled back. The result is
  the real number the float denotes. The model covers quotients in the normal range of
  binary64, which holds whenever the numerator is a 64-bit integer and the divisor is
  \<open>1000000\<close>; a zero divisor (ZeroDivisionError in Python) does not occur at the one call
  site, whose divisor is that constant.
\<close>

fun bit_length :: "nat \<Rightarrow> nat" where
  "bit_length n = (if n = 0 then 0 else Suc (bit_length (n div 2)))"

declare bit_length.simps [simp del]

definition binary_exponent :: "nat \<Rightarrow> nat \<Rightarrow> int" where
  "binary_exponent a b =
     (let k = int (bit_length a) - int (bit_length b)
      in if a * 2 ^ nat (- k) < b * 2 ^ nat k then k - 1 else k)"

definition round_half_even :: "int \<Rightarrow> int \<Rightarrow> int" where
  "round_half_even n d =
     (let q = n div d; r = n mod d
      in if 2 * r < d then q else if d < 2 * r then q + 1 else if even q then q else q + 1)"

definition py_truediv :: "int \<Rightarrow> int \<Rightarrow> real" where
  "py_truediv n d =
     (if n = 0 \<or> d = 0 then 0
      else let a = nat \<bar>n\<bar>; b = nat \<bar>d\<bar>;
               e = binary_exponent a b - 52;
               m = round_half_even (int a * 2 ^ nat (- e)) (int b * 2 ^ nat e)
           in (if (n < 0) = (d < 0) then 1 else - 1) * of_int m * 2 powi e)"

section \<open>The request\<close>

text \<open>
  \<^verbatim>\<open>flask.request.get_json(silent=True)\<close> gives \<^verbatim>\<open>None\<close> when the request has no
  JSON body or the body does not parse, and the parsed value otherwise.
\<close>

datatype request_body = NoBody | NotJson | JsonBody py_value

fun get_json :: "request_body \<Rightarrow> py_value" where
  "get_json NoBody = PNone"
| "get_json NotJson = PNone"
| "get_json (JsonBody v) = v"

section \<open>The advertising platform's records\<close>

text \<open>
  A result row has the nested messages the extractor reads. The 64-bit integer fields are
  words, read as signed numbers. A segment enum is a member with a name and a number.
  The field \<^verbatim>\<open>id\<close> of the campaign and customer messages is named
  \<open>campaign_id\<close> and \<open>customer_id\<close> here.
\<close>

record enum_member =
  name :: string
  number :: int

record campaign_msg =
  campaign_id :: "64 word"

record segments_msg =
  date :: string
  device :: enum_member
  ad_network_type :: enum_member

record metrics_msg =
  cost_micros :: "64 word"

record customer_msg =
  customer_id :: "64 word"

record google_ads_row =
  campaign :: campaign_msg
  segments :: segments_msg
  metrics :: metrics_msg
  customer :: customer_msg

record batch =
  results :: "google_ads_row list"

text \<open>
  The response stream is iterated lazily: it yields batches and then stops, or raises
  while it is being consumed.
\<close>

datatype 'a py_iterator = StopIteration | Yield 'a "'a py_iterator" | Raise py_exception

fun iterator_of :: "'a list \<Rightarrow> 'a py_iterator" where
  "iterator_of [] = StopIteration"
| "iterator_of (x # xs) = Yield x (iterator_of xs)"

section \<open>Configuration and collaborators\<close>

text \<open>
  The module reads five environment variables (each may be unset) and talks to the YAML
  parser, the advertising client and the warehouse client. Their behaviour is a parameter
  of the model: each call returns a value or raises. \<open>py_repr\<close> is the text Python
  prints for floats, lists and dicts, which the model does not spell out.
\<close>

record ga_service =
  search_stream :: "string option \<Rightarrow> string \<Rightarrow> py_exception + batch py_iterator"

record google_ads_client =
  get_service :: "string \<Rightarrow> py_exception + ga_service"

record env =
  GCP_PROJECT :: "string option"
  BQ_DATASET :: "string option"
  BQ_TABLE :: "string option"
  ADS_CUSTOMER_ID :: "string option"
  ADS_CONFIG_STRING :: "string option"
  yaml_safe_load :: "string option \<Rightarrow> py_exception + py_value"
  load_from_dict :: "py_value \<Rightarrow> py_exception + google_ads_client"
  insert_rows_json :: "string \<Rightarrow> py_value list \<Rightarrow> py_exception + py_value list"
  py_repr :: "py_value \<Rightarrow> string"

text \<open>Every call to a collaborator is recorded, in order, with its arguments.\<close>

datatype call =
    YamlSafeLoad "string option"
  | LoadFromDict py_value
  | GetService string
  | SearchStream "string option" string
  | InsertRowsJson string "py_value list"

text \<open>What an f-string puts in place of \<^verbatim>\<open>{x}\<close>.\<close>

fun py_str :: "env \<Rightarrow> py_value \<Rightarrow> string" where
  "py_str E PNone = ''None''"
| "py_str E (PBool b) = (if b then ''True'' else ''False'')"
| "py_str E (PInt i) = py_str_int i"
| "py_str E (PStr s) = s"
| "py_str E (PFloat f) = py_repr E (PFloat f)"
| "py_str E (PList xs) = py_repr E (PList xs)"
| "py_str E (PDict kvs) = py_repr E (PDict kvs)"

fun py_str_opt :: "string option \<Rightarrow> string" where
  "py_str_opt None = ''None''"
| "py_str_opt (Some s) = s"

section \<open>The extractor\<close>

definition nl :: string where
  "nl = [CHR 0x0A]"

definition quote :: string where
  "quote = [CHR 0x27]"

text \<open>The query text of \<^verbatim>\<open>fetch_google_ads_data\<close>, line by line.\<close>

definition query_text :: "env \<Rightarrow> py_value \<Rightarrow> py_value \<Rightarrow> string" where
  "query_text E start_date end_date =
     nl @ ''        SELECT''
     @ nl @ ''            campaign.id,''
     @ nl @ ''            segments.date,''
     @ nl @ ''            metrics.cost_micros,''
     @ nl @ ''            segments.device,''
     @ nl @ ''            segments.ad_network_type,''
     @ nl @ ''            customer.id''
     @ nl @ ''        FROM campaign''
     @ nl @ ''        WHERE segments.date BETWEEN '' @ quote @ py_str E start_date @ quote
          @ '' AND '' @ quote @ py_str E end_date @ quote
     @ nl @ ''    ''"

text \<open>The body of the inner loop: one dict per result row.\<close>

definition row_to_insert :: "google_ads_row \<Rightarrow> py_value" where
  "row_to_insert row =
     (let cost = py_truediv (sint (cost_micros (metrics row))) 1000000
      in PDict
        [(''event_date'', PStr (date (segments row))),
         (''external_customer_id'', PInt (sint (customer_id (customer row)))),
         (''campaign_id'', PInt (sint (campaign_id (campaign row)))),
         (''ad_network_type'', PStr (name (ad_network_type (segments row)))),
         (''device'', PStr (name (device (segments row)))),
         (''cost'', PFloat (Finite cost))])"

fun append_results :: "py_value list \<Rightarrow> google_ads_row list \<Rightarrow> py_value list" where
  "append_results rows_to_insert [] = rows_to_insert"
| "append_results rows_to_insert (row # rest) =
     append_results (rows_to_insert @ [row_to_insert row]) rest"

fun consume_stream :: "py_value list \<Rightarrow> batch py_iterator \<Rightarrow> py_exception + py_value list" where
  "consume_stream rows_to_insert StopIteration = Inr rows_to_insert"
| "consume_stream rows_to_insert (Yield b stream) =
     consume_stream (append_results rows_to_insert (results b)) stream"
| "consume_stream rows_to_insert (Raise e) = Inl e"

definition fetch_google_ads_data ::
  "env \<Rightarrow> py_value \<Rightarrow> py_value \<Rightarrow> call list \<Rightarrow> (py_exception + py_value list) \<times> call list" where
  "fetch_google_ads_data E start_date end_date calls =
     (let calls1 = calls @ [YamlSafeLoad (ADS_CONFIG_STRING E)] in
      (case yaml_safe_load E (ADS_CONFIG_STRING E) of
         Inl e \<Rightarrow> (Inl e, calls1)
       | Inr config \<Rightarrow>
          (let calls2 = calls1 @ [LoadFromDict config] in
           (case load_from_dict E config of
              Inl e \<Rightarrow> (Inl e, calls2)
            | Inr google_ads_client \<Rightarrow>
               (let calls3 = calls2 @ [GetService ''GoogleAdsService''] in
                (case get_service google_ads_client ''GoogleAdsService'' of
                   Inl e \<Rightarrow> (Inl e, calls3)
                 | Inr service \<Rightarrow>
                    (let query = query_text E start_date end_date;
                         calls4 = calls3 @ [SearchStream (ADS_CUSTOMER_ID E) query] in
                     (case search_stream service (ADS_CUSTOMER_ID E) query of
                        Inl e \<Rightarrow> (Inl e, calls4)
                      | Inr stream \<Rightarrow> (consume_stream [] stream, calls4)))))))))"

section \<open>The loader\<close>

definition table_id :: "env \<Rightarrow> string" where
  "table_id E =
     py_str_opt (GCP_PROJECT E) @ ''.'' @ py_str_opt (BQ_DATASET E) @ ''.'' @ py_str_opt (BQ_TABLE E)"

definition load_data_to_bigquery ::
  "env \<Rightarrow> py_value list \<Rightarrow> call list \<Rightarrow> (py_exception + unit) \<times> call list" where
  "load_data_to_bigquery E rows calls =
     (let calls1 = calls @ [InsertRowsJson (table_id E) rows] in
      (case insert_rows_json E (table_id E) rows of
         Inl e \<Rightarrow> (Inl e, calls1)
       | Inr errors \<Rightarrow>
          (if errors \<noteq> []
           then (Inl (Exception (''BigQuery load job failed: '' @ py_str E (PList errors))), calls1)
           else (Inr (), calls1))))"

section \<open>The handler\<close>

text \<open>
  \<^verbatim>\<open>run_job\<close> returns a body and a status, or lets an error of the interpreter escape
  to the web framework. The second component is the list of collaborator calls it made.
  What the functions print to standard output is left out: it changes neither the response
  nor the calls.
\<close>

type_synonym response = "string \<times> nat"

definition try_block :: "env \<Rightarrow> py_value \<Rightarrow> py_value \<Rightarrow> response \<times> call list" where
  "try_block E start_date end_date =
     (case fetch_google_ads_data E start_date end_date [] of
        (Inl e, calls) \<Rightarrow> ((''An error occurred: '' @ exc_str e, 500), calls)
      | (Inr ads_data, calls) \<Rightarrow>
          (if ads_data = [] then ((''Successfully completed. No data to load.'', 200), calls)
           else (case load_data_to_bigquery E ads_data calls of
                   (Inl e, calls') \<Rightarrow> ((''An error occurred: '' @ exc_str e, 500), calls')
                 | (Inr u, calls') \<Rightarrow>
                     ((''Success: Loaded '' @ py_str_int (int (length ads_data)) @ '' rows.'', 200),
                      calls'))))"

definition invalid_request :: "py_value \<Rightarrow> interpreter_error + bool" where
  "invalid_request request_json =
     (if \<not> truthy request_json then Inr True
      else (case py_contains request_json ''start_date'' of
              Inl e \<Rightarrow> Inl e
            | Inr has_start \<Rightarrow>
                (if \<not> has_start then Inr True
                 else (case py_contains request_json ''end_date'' of
                         Inl e \<Rightarrow> Inl e
                       | Inr has_end \<Rightarrow> Inr (\<not> has_end)))))"

definition run_job :: "env \<Rightarrow> request_body \<Rightarrow> (interpreter_error + response) \<times> call list" where
  "run_job E body =
     (let request_json = get_json body in
      (case invalid_request request_json of
         Inl e \<Rightarrow> (Inl e, [])
       | Inr invalid \<Rightarrow>
           (if invalid
            then (Inr (''Invalid request: JSON payload with 'start_date' and 'end_date' is required.'',
                       400), [])
            else (case py_getitem request_json ''start_date'' of
                    Inl e \<Rightarrow> (Inl e, [])
                  | Inr start_date \<Rightarrow>
                      (case py_getitem request_json ''end_date'' of
                         Inl e \<Rightarrow> (Inl e, [])
                       | Inr end_date \<Rightarrow>
                           (case try_block E start_date end_date of
                              (resp, calls) \<Rightarrow> (Inr resp, calls)))))))"

section \<open>Observing a run\<close>

text \<open>
  The stage a call belongs to, and the number of calls to the warehouse in a list of calls.
\<close>

datatype stage = ParseConfig | BuildClient | OpenService | SubmitQuery | InsertRows

fun stage_of :: "call \<Rightarrow> stage" where
  "stage_of (YamlSafeLoad s) = ParseConfig"
| "stage_of (LoadFromDict c) = BuildClient"
| "stage_of (GetService n) = OpenService"
| "stage_of (SearchStream cid q) = SubmitQuery"
| "stage_of (InsertRowsJson t rows) = InsertRows"

definition loader_calls :: "call list \<Rightarrow> nat" where
  "loader_calls calls = length (filter (\<lambda>c. stage_of c = InsertRows) calls)"

text \<open>The number a string of decimal digits denotes.\<close>

definition digit_value :: "char \<Rightarrow> nat" where
  "digit_value c = of_char c - 48"

definition decimal_value :: "string \<Rightarrow> nat" where
  "decimal_value s = foldl (\<lambda>acc c. 10 * acc + digit_value c) 0 s"

section \<open>A concrete deployment\<close>

text \<open>
  An environment for running the handler on concrete input: every variable is set, the
  configuration parses, and the results of building the client, of the query and of the
  insert are chosen by the caller. The request is the one of the specification's scenarios.
\<close>

definition example_client :: "(py_exception + batch py_iterator) \<Rightarrow> google_ads_client" where
  "example_client answer =
     \<lparr>get_service = (\<lambda>n. Inr \<lparr>search_stream = (\<lambda>cid q. answer)\<rparr>)\<rparr>"

definition example_env ::
  "(py_exception + google_ads_client) \<Rightarrow> (py_exception + py_value list) \<Rightarrow> env" where
  "example_env client inserted =
     \<lparr>GCP_PROJECT = Some ''my-project'',
      BQ_DATASET = Some ''google_ads_data'',
      BQ_TABLE = Some ''p_CampaignStats'',
      ADS_CUSTOMER_ID = Some ''1234567890'',
      ADS_CONFIG_STRING = Some ''use_proto_plus: true'',
      yaml_safe_load = (\<lambda>s. Inr (PDict [(''use_proto_plus'', PBool True)])),
      load_from_dict = (\<lambda>config. client),
      insert_rows_json = (\<lambda>t rows. inserted),
      py_repr = (\<lambda>v. ''<repr>'')\<rparr>"

definition example_request :: request_body where
  "example_request =
     JsonBody (PDict [(''start_date'', PStr ''2024-01-01''), (''end_date'', PStr ''2024-01-31'')])"

definition example_row :: "64 word \<Rightarrow> google_ads_row" where
  "example_row c =
     \<lparr>campaign = \<lparr>campaign_id = 111\<rparr>,
      segments = \<lparr>date = ''2024-01-15'',
                  device = \<lparr>name = ''MOBILE'', number = 2\<rparr>,
                  ad_network_type = \<lparr>name = ''SEARCH'', number = 2\<rparr>\<rparr>,
      metrics = \<lparr>cost_micros = c\<rparr>,
      customer = \<lparr>customer_id = 1234567890\<rparr>\<rparr>"

definition example_query :: string where
  "example_query =
     nl @ ''        SELECT''
     @ nl @ ''            campaign.id,''
     @ nl @ ''            segments.date,''
     @ nl @ ''            metrics.cost_micros,''
     @ nl @ ''            segments.device,''
     @ nl @ ''            segments.ad_network_type,''
     @ nl @ ''            customer.id''
     @ nl @ ''        FROM campaign''
     @ nl @ ''        WHERE segments.date BETWEEN '' @ quote @ ''2024-01-01'' @ quote
          @ '' AND '' @ quote @ ''2024-01-31'' @ quote
     @ nl @ ''    ''"

definition example_calls :: "call list" where
  "example_calls =
     [YamlSafeLoad (Some ''use_proto_plus: true''),
      LoadFromDict (PDict [(''use_proto_plus'', PBool True)]),
      GetService ''GoogleAdsService'',
      SearchStream (Some ''1234567890'') example_query]"

definition example_warehouse_row :: "real \<Rightarrow> py_value" where
  "example_warehouse_row c =
     PDict [(''event_date'', PStr ''2024-01-15''),
            (''external_customer_id'', PInt 1234567890),
            (''campaign_id'', PInt 111),
            (''ad_network_type'', PStr ''SEARCH''),
            (''device'', PStr ''MOBILE''),
            (''cost'', PFloat (Finite c))]"

section \<open>Properties of the loops and of the handler's paths\<close>

lemma append_results_eq: "append_results acc rs = acc @ map row_to_insert rs"
  by (induction rs arbitrary: acc) simp_all

lemma consume_stream_iterator_of:
  "consume_stream acc (iterator_of bs) = Inr (acc @ map row_to_insert (concat (map results bs)))"
  by (induction bs arbitrary: acc) (simp_all add: append_results_eq)

lemma fetch_connected:
  assumes "yaml_safe_load E (ADS_CONFIG_STRING E) = Inr config"
    and "load_from_dict E config = Inr client"
    and "get_service client ''GoogleAdsService'' = Inr service"
  shows "fetch_google_ads_data E start_date end_date calls =
    (case search_stream service (ADS_CUSTOMER_ID E) (query_text E start_date end_date) of
       Inl e \<Rightarrow> Inl e | Inr stream \<Rightarrow> consume_stream [] stream,
     calls @ [YamlSafeLoad (ADS_CONFIG_STRING E), LoadFromDict config,
              GetService ''GoogleAdsService'',
              SearchStream (ADS_CUSTOMER_ID E) (query_text E start_date end_date)])"
  using assms by (simp add: fetch_google_ads_data_def Let_def split: sum.splits)

lemma fetch_no_insert:
  "loader_calls (snd (fetch_google_ads_data E start_date end_date calls)) = loader_calls calls"
  by (simp add: fetch_google_ads_data_def Let_def loader_calls_def split: sum.splits)

lemma run_job_valid:
  assumes "map_of kvs ''start_date'' = Some start_date"
    and "map_of kvs ''end_date'' = Some end_date"
  shows "run_job E (JsonBody (PDict kvs)) =
    (Inr (fst (try_block E start_date end_date)), snd (try_block E start_date end_date))"
proof -
  have s: "''start_date'' \<in> fst ` set kvs" and e: "''end_date'' \<in> fst ` set kvs"
    using assms by (auto dest!: map_of_SomeD intro: rev_image_eqI)
  then have "kvs \<noteq> []" by auto
  with s e show ?thesis
    using assms by (simp add: run_job_def invalid_request_def split: prod.splits)
qed

lemma sublist_dates:
  "sublist ''start_date'' ''start_date end_date''"
  "sublist ''end_date'' ''start_date end_date''"
  by code_simp+

lemma validation_rejects:
  "run_job E NoBody =
     (Inr (''Invalid request: JSON payload with 'start_date' and 'end_date' is required.'', 400), [])"
  "run_job E NotJson =
     (Inr (''Invalid request: JSON payload with 'start_date' and 'end_date' is required.'', 400), [])"
  "\<not> truthy v \<Longrightarrow> run_job E (JsonBody v) =
     (Inr (''Invalid request: JSON payload with 'start_date' and 'end_date' is required.'', 400), [])"
  "''start_date'' \<notin> fst ` set kvs \<or> ''end_date'' \<notin> fst ` set kvs \<Longrightarrow>
   run_job E (JsonBody (PDict kvs)) =
     (Inr (''Invalid request: JSON payload with 'start_date' and 'end_date' is required.'', 400), [])"
  by (auto simp: run_job_def invalid_request_def Let_def)

lemma truthy_scalars_escape:
  assumes "truthy v"
    and "(\<exists>b. v = PBool b) \<or> (\<exists>i. v = PInt i) \<or> (\<exists>f. v = PFloat f)"
  shows "run_job E (JsonBody v) = (Inl TypeError, [])"
  using assms by (auto simp: run_job_def invalid_request_def Let_def)

lemma load_calls:
  "snd (load_data_to_bigquery E rows calls) = calls @ [InsertRowsJson (table_id E) rows]"
  by (simp add: load_data_to_bigquery_def Let_def split: sum.splits)

lemma try_block_calls:
  "snd (try_block E start_date end_date) = snd (fetch_google_ads_data E start_date end_date [])
   \<or> (\<exists>rows. fst (fetch_google_ads_data E start_date end_date []) = Inr rows
          \<and> snd (try_block E start_date end_date) =
              snd (fetch_google_ads_data E start_date end_date [])
                @ [InsertRowsJson (table_id E) rows])"
proof (cases "fetch_google_ads_data E start_date end_date []")
  case (Pair res calls)
  show ?thesis
  proof (cases res)
    case (Inl e)
    with Pair show ?thesis by (simp add: try_block_def)
  next
    case (Inr rows)
    have "snd (load_data_to_bigquery E rows calls) = calls @ [InsertRowsJson (table_id E) rows]"
      by (rule load_calls)
    with Pair Inr show ?thesis
      by (cases "load_data_to_bigquery E rows calls") (auto simp: try_block_def split: sum.splits)
  qed
qed

lemma fetch_stages:
  "(case fetch_google_ads_data E start_date end_date [] of
      (Inl ex, calls) \<Rightarrow>
        prefix (map stage_of calls) [ParseConfig, BuildClient, OpenService, SubmitQuery]
    | (Inr rows, calls) \<Rightarrow>
        map stage_of calls = [ParseConfig, BuildClient, OpenService, SubmitQuery])"
  by (simp add: fetch_google_ads_data_def Let_def split: sum.splits)

lemma try_block_stages:
  "prefix (map stage_of (snd (try_block E start_date end_date)))
     [ParseConfig, BuildClient, OpenService, SubmitQuery, InsertRows]"
proof (cases "fetch_google_ads_data E start_date end_date []")
  case (Pair res calls)
  show ?thesis
  proof (cases res)
    case (Inl ex)
    with Pair fetch_stages [of E start_date end_date]
    have "prefix (map stage_of calls) [ParseConfig, BuildClient, OpenService, SubmitQuery]"
      by simp
    then have "prefix (map stage_of calls)
                 ([ParseConfig, BuildClient, OpenService, SubmitQuery] @ [InsertRows])"
      by (rule prefix_prefix)
    with Pair Inl show ?thesis by (simp add: try_block_def)
  next
    case (Inr rows)
    with Pair fetch_stages [of E start_date end_date]
    have st: "map stage_of calls = [ParseConfig, BuildClient, OpenService, SubmitQuery]"
      by simp
    have "snd (load_data_to_bigquery E rows calls) = calls @ [InsertRowsJson (table_id E) rows]"
      by (rule load_calls)
    with Pair Inr st show ?thesis
      by (cases "load_data_to_bigquery E rows calls") (auto simp: try_block_def split: sum.splits)
  qed
qed

lemma run_job_stages:
  "prefix (map stage_of (snd (run_job E body)))
     [ParseConfig, BuildClient, OpenService, SubmitQuery, InsertRows]"
  using try_block_stages
  by (simp add: run_job_def Let_def split_beta split: sum.splits)

section \<open>The true division rounds once\<close>

text \<open>
  \<open>py_truediv\<close> is within half a unit in the last place of the exact quotient: the
  significand it builds has 53 bits, and the result differs from the quotient by at most
  the quotient times \<open>2^-53\<close>. For a 64-bit numerator and the divisor \<open>1000000\<close>
  the binary exponent of the quotient lies between \<open>-20\<close> and \<open>43\<close>, far inside
  the normal range of binary64.
\<close>

lemma bit_length_bounds:
  "0 < n \<Longrightarrow> 2 ^ (bit_length n - 1) \<le> n \<and> n < 2 ^ bit_length n"
proof (induction n rule: bit_length.induct)
  case (1 n)
  show ?case
  proof (cases "n div 2 = 0")
    case True
    with 1(2) have "n = 1" by (simp add: div_eq_0_iff)
    then show ?thesis by (simp add: bit_length.simps)
  next
    case False
    then have pos: "0 < n div 2" by simp
    from 1(1) [OF _ pos] 1(2)
    have ih: "2 ^ (bit_length (n div 2) - 1) \<le> n div 2" "n div 2 < 2 ^ bit_length (n div 2)"
      by simp_all
    have bl: "bit_length n = Suc (bit_length (n div 2))"
      using 1(2) by (subst bit_length.simps) simp
    have blpos: "0 < bit_length (n div 2)"
      using pos by (subst bit_length.simps) simp
    then have "(2::nat) ^ bit_length (n div 2) = 2 * 2 ^ (bit_length (n div 2) - 1)"
      by (cases "bit_length (n div 2)") simp_all
    with ih show ?thesis unfolding bl by simp arith
  qed
qed

lemma round_half_even_error:
  assumes "0 < d"
  shows "\<bar>real_of_int (round_half_even n d) - real_of_int n / real_of_int d\<bar> \<le> 1 / 2"
proof -
  define q r where "q = n div d" and "r = n mod d"
  define f where "f = real_of_int r / real_of_int d"
  have n: "n = q * d + r" and r: "0 \<le> r" "r < d"
    using assms by (simp_all add: q_def r_def)
  have dpos: "0 < real_of_int d" using assms by simp
  have nd: "real_of_int n / real_of_int d = real_of_int q + f"
    using dpos by (simp add: n f_def field_simps)
  have f: "0 \<le> f" "f < 1" using r dpos by (simp_all add: f_def)
  have half: "(f < 1 / 2) = (2 * r < d)" "(1 / 2 < f) = (d < 2 * r)"
  proof -
    have "(f < 1 / 2) = (2 * real_of_int r < real_of_int d)"
      using dpos by (simp add: f_def pos_divide_less_eq mult.commute)
    also have "\<dots> = (real_of_int (2 * r) < real_of_int d)" by simp
    also have "\<dots> = (2 * r < d)" by (simp only: of_int_less_iff)
    finally show "(f < 1 / 2) = (2 * r < d)" .
    have "(1 / 2 < f) = (real_of_int d < 2 * real_of_int r)"
      using dpos by (simp add: f_def pos_less_divide_eq mult.commute)
    also have "\<dots> = (real_of_int d < real_of_int (2 * r))" by simp
    also have "\<dots> = (d < 2 * r)" by (simp only: of_int_less_iff)
    finally show "(1 / 2 < f) = (d < 2 * r)" .
  qed
  consider "2 * r < d" | "d < 2 * r" | "\<not> 2 * r < d" "\<not> d < 2 * r" by blast
  then show ?thesis
  proof cases
    case 1
    then have "round_half_even n d = q" by (simp add: round_half_even_def q_def r_def Let_def)
    moreover have "f < 1 / 2" using 1 by (simp only: half)
    ultimately show ?thesis using f unfolding nd by simp
  next
    case 2
    then have "round_half_even n d = q + 1" by (simp add: round_half_even_def q_def r_def Let_def)
    moreover have "1 / 2 < f" using 2 by (simp only: half)
    ultimately show ?thesis using f unfolding nd by simp
  next
    case 3
    then have "round_half_even n d = q \<or> round_half_even n d = q + 1"
      by (simp add: round_half_even_def q_def r_def Let_def)
    moreover have "f = 1 / 2" using 3 half by linarith
    ultimately show ?thesis unfolding nd by auto
  qed
qed

lemma powi_split:
  "(2::real) powi (k - 1) * 2 powi l = 2 powi (k + l - 1)"
  "(2::real) powi (k + 1) * 2 powi (l - 1) = 2 powi (k + l)"
proof -
  have "(2::real) powi ((k - 1) + l) = 2 powi (k - 1) * 2 powi l"
    by (rule power_int_add) simp
  moreover have "(k - 1) + l = k + l - 1" by simp
  ultimately show "(2::real) powi (k - 1) * 2 powi l = 2 powi (k + l - 1)" by (simp only:)
  have "(2::real) powi ((k + 1) + (l - 1)) = 2 powi (k + 1) * 2 powi (l - 1)"
    by (rule power_int_add) simp
  moreover have "(k + 1) + (l - 1) = k + l" by simp
  ultimately show "(2::real) powi (k + 1) * 2 powi (l - 1) = 2 powi (k + l)" by (simp only:)
qed


lemma bit_length_real_bounds:
  assumes "0 < n"
  shows "2 powi (int (bit_length n) - 1) \<le> real n"
    and "real n < 2 powi (int (bit_length n))"
proof -
  from bit_length_bounds [OF assms]
  have lo: "2 ^ (bit_length n - 1) \<le> n" and hi: "n < 2 ^ bit_length n" by simp_all
  have pos: "0 < bit_length n" using hi assms by (cases "bit_length n") simp_all
  have "real (2 ^ (bit_length n - 1)) \<le> real n" using lo by (simp only: of_nat_le_iff)
  then have "2 ^ (bit_length n - 1) \<le> real n" by simp
  moreover have "int (bit_length n) - 1 = int (bit_length n - 1)" using pos by simp
  ultimately show "2 powi (int (bit_length n) - 1) \<le> real n"
    by (simp only: power_int_of_nat)
  have "real n < real (2 ^ bit_length n)" using hi by (simp only: of_nat_less_iff)
  then show "real n < 2 powi (int (bit_length n))" by simp
qed

lemma scaled_comparison:
  "(a * 2 ^ nat (- k) < b * 2 ^ nat k) \<longleftrightarrow> real a < 2 powi k * real b"
proof (cases "0 \<le> k")
  case True
  then have "nat (- k) = 0" and "(2::real) powi k = 2 ^ nat k"
    by (simp_all add: power_int_def)
  moreover have "(a < b * 2 ^ nat k) \<longleftrightarrow> real a < real (b * 2 ^ nat k)"
    by (simp only: of_nat_less_iff)
  ultimately show ?thesis by (simp add: mult.commute)
next
  case False
  then have "nat k = 0" and pw: "(2::real) powi k = 1 / 2 ^ nat (- k)"
    by (simp_all add: power_int_def power_one_over)
  moreover have "(a * 2 ^ nat (- k) < b) \<longleftrightarrow> real (a * 2 ^ nat (- k)) < real b"
    by (simp only: of_nat_less_iff)
  moreover have "real (a * 2 ^ nat (- k)) < real b \<longleftrightarrow> real a < real b / 2 ^ nat (- k)"
    by (simp add: pos_less_divide_eq)
  ultimately show ?thesis by simp
qed


lemma binary_exponent_bounds:
  assumes "0 < a" and "0 < b"
  shows "2 powi (binary_exponent a b) * real b \<le> real a"
    and "real a < 2 powi (binary_exponent a b + 1) * real b"
proof -
  define la lb where "la = int (bit_length a)" and "lb = int (bit_length b)"
  define k where "k = la - lb"
  note ra = bit_length_real_bounds [OF assms(1), folded la_def]
  note rb = bit_length_real_bounds [OF assms(2), folded lb_def]
  have p: "binary_exponent a b = (if real a < 2 powi k * real b then k - 1 else k)"
    by (simp add: binary_exponent_def la_def lb_def k_def Let_def scaled_comparison)
  have kl: "k + lb - 1 = la - 1" "k + lb = la" by (simp_all add: k_def)
  have pos: "0 \<le> (2::real) powi (k - 1)" "0 \<le> (2::real) powi (k + 1)" by simp_all
  show "2 powi (binary_exponent a b) * real b \<le> real a"
  proof (cases "real a < 2 powi k * real b")
    case True
    have "2 powi (k - 1) * real b \<le> 2 powi (k - 1) * 2 powi lb"
      using rb(2) pos(1) by (intro mult_left_mono) simp_all
    also have "\<dots> = 2 powi (la - 1)" by (simp only: powi_split kl)
    also have "\<dots> \<le> real a" by (rule ra(1))
    finally show ?thesis using True by (simp only: p if_True)
  next
    case False
    then have "2 powi k * real b \<le> real a" by simp
    then show ?thesis using False by (simp only: p if_False)
  qed
  show "real a < 2 powi (binary_exponent a b + 1) * real b"
  proof (cases "real a < 2 powi k * real b")
    case True
    moreover have "k - 1 + 1 = k" by simp
    ultimately show ?thesis by (simp only: p if_True)
  next
    case False
    have "real a < 2 powi la" by (rule ra(2))
    also have "\<dots> = 2 powi (k + 1) * 2 powi (lb - 1)" by (simp only: powi_split kl)
    also have "\<dots> \<le> 2 powi (k + 1) * real b"
      using rb(1) pos(2) by (intro mult_left_mono) simp_all
    finally show ?thesis using False by (simp only: p if_False)
  qed
qed


lemma scaled_quotient:
  assumes "0 < b"
  shows "real_of_int (int a * 2 ^ nat (- e)) / real_of_int (int b * 2 ^ nat e)
           = (real a / real b) / 2 powi e"
proof (cases "0 \<le> e")
  case True
  then have "nat (- e) = 0" and "(2::real) powi e = 2 ^ nat e"
    by (simp_all add: power_int_def)
  then show ?thesis by simp
next
  case False
  then have "nat e = 0" and "(2::real) powi e = 1 / 2 ^ nat (- e)"
    by (simp_all add: power_int_def power_one_over)
  then show ?thesis by simp
qed

lemma rounded_significand_error:
  assumes "0 < a" and "0 < b"
  defines "e \<equiv> binary_exponent a b - 52"
  defines "m \<equiv> round_half_even (int a * 2 ^ nat (- e)) (int b * 2 ^ nat e)"
  shows "\<bar>real_of_int m * 2 powi e - real a / real b\<bar> \<le> (real a / real b) / 2 ^ 53"
proof -
  define x where "x = real a / real b"
  define s where "s = (2::real) powi e"
  have spos: "0 < s" by (simp add: s_def)
  have bpos: "0 < real b" using assms(2) by simp
  have "0 < int b * 2 ^ nat e" using assms(2) by simp
  from round_half_even_error [OF this, of "int a * 2 ^ nat (- e)"]
  have "\<bar>real_of_int m - x / s\<bar> \<le> 1 / 2"
    by (simp only: m_def scaled_quotient [OF assms(2)] x_def s_def)
  then have "s * \<bar>real_of_int m - x / s\<bar> \<le> s * (1 / 2)"
    using spos by (intro mult_left_mono) simp_all
  moreover have "s * \<bar>real_of_int m - x / s\<bar> = \<bar>real_of_int m * s - x\<bar>"
  proof -
    have "s * \<bar>real_of_int m - x / s\<bar> = \<bar>s * (real_of_int m - x / s)\<bar>"
      using spos by (simp add: abs_mult)
    also have "s * (real_of_int m - x / s) = real_of_int m * s - x"
      using spos by (simp add: field_simps)
    finally show ?thesis .
  qed
  ultimately have err: "\<bar>real_of_int m * s - x\<bar> \<le> s / 2" by simp
  have "2 powi (binary_exponent a b) * real b \<le> real a"
    by (rule binary_exponent_bounds(1) [OF assms(1,2)])
  then have lo: "2 powi (binary_exponent a b) \<le> x"
    using bpos by (simp add: x_def pos_le_divide_eq)
  have "(2::real) powi (binary_exponent a b) = 2 powi (e + 52)" by (simp add: e_def)
  also have "\<dots> = s * 2 ^ 52" unfolding s_def by (subst power_int_add) simp_all
  finally have "s * 2 ^ 52 \<le> x" using lo by simp
  then have "s / 2 \<le> x / 2 ^ 53" by simp
  with err show ?thesis unfolding x_def s_def by linarith
qed

lemma py_truediv_error:
  "\<bar>py_truediv n d - real_of_int n / real_of_int d\<bar> \<le> \<bar>real_of_int n / real_of_int d\<bar> / 2 ^ 53"
proof (cases "n = 0 \<or> d = 0")
  case True
  then show ?thesis by (auto simp: py_truediv_def)
next
  case False
  define a b where "a = nat \<bar>n\<bar>" and "b = nat \<bar>d\<bar>"
  define e where "e = binary_exponent a b - 52"
  define m where "m = round_half_even (int a * 2 ^ nat (- e)) (int b * 2 ^ nat e)"
  define sg :: real where "sg = (if (n < 0) = (d < 0) then 1 else - 1)"
  define x where "x = real a / real b"
  have apos: "0 < a" and bpos: "0 < b" using False by (simp_all add: a_def b_def)
  have pt: "py_truediv n d = sg * (real_of_int m * 2 powi e)"
    using False by (simp add: py_truediv_def Let_def a_def b_def e_def m_def sg_def)
  have ra: "real a = \<bar>real_of_int n\<bar>" and rb: "real b = \<bar>real_of_int d\<bar>"
    by (simp_all add: a_def b_def)
  have nd: "real_of_int n / real_of_int d = sg * x"
    using False unfolding x_def ra rb sg_def by (auto simp: abs_if)
  have sg: "\<bar>sg\<bar> = 1" by (simp add: sg_def)
  have xpos: "0 \<le> x" by (simp add: x_def)
  from rounded_significand_error [OF apos bpos]
  have "\<bar>real_of_int m * 2 powi e - x\<bar> \<le> x / 2 ^ 53"
    by (simp only: m_def e_def x_def)
  moreover have "\<bar>py_truediv n d - real_of_int n / real_of_int d\<bar>
                   = \<bar>real_of_int m * 2 powi e - x\<bar>"
  proof -
    have "py_truediv n d - real_of_int n / real_of_int d = sg * (real_of_int m * 2 powi e - x)"
      by (simp only: pt nd right_diff_distrib)
    then show ?thesis by (simp only: abs_mult sg mult_1)
  qed
  moreover have "\<bar>real_of_int n / real_of_int d\<bar> = x"
    using xpos by (simp only: nd abs_mult sg mult_1 abs_of_nonneg)
  ultimately show ?thesis by simp
qed


lemma rounded_significand_range:
  assumes "0 < a" and "0 < b"
  defines "e \<equiv> binary_exponent a b - 52"
  defines "m \<equiv> round_half_even (int a * 2 ^ nat (- e)) (int b * 2 ^ nat e)"
  shows "2 ^ 52 \<le> m \<and> m \<le> 2 ^ 53"
proof -
  define y where "y = (real a / real b) / 2 powi e"
  have bpos: "0 < real b" using assms(2) by simp
  have s52: "(2::real) powi (binary_exponent a b) = 2 powi e * 2 ^ 52"
  proof -
    have "(2::real) powi (e + 52) = 2 powi e * 2 powi 52" by (rule power_int_add) simp
    then show ?thesis by (simp add: e_def)
  qed
  have s53: "(2::real) powi (binary_exponent a b + 1) = 2 powi e * 2 ^ 53"
  proof -
    have "(2::real) powi (e + 53) = 2 powi e * 2 powi 53" by (rule power_int_add) simp
    then show ?thesis by (simp add: e_def add.commute)
  qed
  have "2 powi e * 2 ^ 52 * real b \<le> real a"
    using binary_exponent_bounds(1) [OF assms(1,2)] by (simp only: s52)
  then have lo: "2 ^ 52 \<le> y"
    using bpos by (simp add: y_def pos_le_divide_eq mult_ac)
  have "real a < 2 powi e * 2 ^ 53 * real b"
    using binary_exponent_bounds(2) [OF assms(1,2)] by (simp only: s53)
  then have hi: "y < 2 ^ 53"
    using bpos by (simp add: y_def pos_divide_less_eq mult_ac)
  have "0 < int b * 2 ^ nat e" using assms(2) by simp
  from round_half_even_error [OF this, of "int a * 2 ^ nat (- e)"]
  have "\<bar>real_of_int m - y\<bar> \<le> 1 / 2"
    by (simp only: m_def scaled_quotient [OF assms(2)] y_def)
  with lo hi have "2 ^ 52 - 1 / 2 \<le> real_of_int m" "real_of_int m < 2 ^ 53 + 1 / 2"
    by linarith+
  then have "real_of_int (2 ^ 52 - 1) < real_of_int m" "real_of_int m < real_of_int (2 ^ 53 + 1)"
    by simp_all
  then have "2 ^ 52 - 1 < m" "m < 2 ^ 53 + 1" by (simp_all only: of_int_less_iff)
  then show ?thesis by simp
qed

lemma cost_exponent_range:
  fixes c :: "64 word"
  assumes "sint c \<noteq> 0"
  shows "- 20 \<le> binary_exponent (nat \<bar>sint c\<bar>) 1000000"
    and "binary_exponent (nat \<bar>sint c\<bar>) 1000000 \<le> 43"
proof -
  define a where "a = nat \<bar>sint c\<bar>"
  define p where "p = binary_exponent a 1000000"
  have apos: "0 < a" using assms by (simp add: a_def)
  have "- (2 ^ 63) \<le> sint c" "sint c < 2 ^ 63"
    using sint_ge [of c] sint_lt [of c] by simp_all
  then have ale: "real a \<le> 2 ^ 63" by (simp add: a_def abs_if)
  have one: "1 \<le> real a" using apos by simp
  have lo: "2 powi p * 1000000 \<le> real a" and hi: "real a < 2 powi (p + 1) * 1000000"
    using binary_exponent_bounds [OF apos, of 1000000] by (simp_all add: p_def)
  show "- 20 \<le> binary_exponent (nat \<bar>sint c\<bar>) 1000000"
  proof (rule ccontr)
    assume "\<not> ?thesis"
    then have "p + 1 \<le> - 20" by (simp add: p_def a_def)
    then have "(2::real) powi (p + 1) \<le> 2 powi (- 20)" by (rule power_int_increasing) simp
    then have "2 powi (p + 1) * 1000000 \<le> (2::real) powi (- 20) * 1000000" by simp
    also have "\<dots> < 1" by simp
    finally show False using hi one by simp
  qed
  show "binary_exponent (nat \<bar>sint c\<bar>) 1000000 \<le> 43"
  proof (rule ccontr)
    assume "\<not> ?thesis"
    then have "44 \<le> p" by (simp add: p_def a_def)
    then have "(2::real) powi 44 \<le> 2 powi p" by (rule power_int_increasing) simp
    then have "(2::real) powi 44 * 1000000 \<le> 2 powi p * 1000000" by simp
    with lo ale show False by simp
  qed
qed

section \<open>The concrete deployment, evaluated\<close>

lemma example_env_simps:
  "GCP_PROJECT (example_env c i) = Some ''my-project''"
  "BQ_DATASET (example_env c i) = Some ''google_ads_data''"
  "BQ_TABLE (example_env c i) = Some ''p_CampaignStats''"
  "ADS_CUSTOMER_ID (example_env c i) = Some ''1234567890''"
  "ADS_CONFIG_STRING (example_env c i) = Some ''use_proto_plus: true''"
  "yaml_safe_load (example_env c i) s = Inr (PDict [(''use_proto_plus'', PBool True)])"
  "load_from_dict (example_env c i) config = c"
  "insert_rows_json (example_env c i) t rows = i"
  "py_repr (example_env c i) v = ''<repr>''"
  by (simp_all add: example_env_def)

lemma example_client_simps:
  "get_service (example_client a) n = Inr \<lparr>search_stream = (\<lambda>cid q. a)\<rparr>"
  by (simp add: example_client_def)

lemma example_query_text:
  "query_text (example_env c i) (PStr ''2024-01-01'') (PStr ''2024-01-31'') = example_query"
  by (simp add: query_text_def example_query_def)

lemma example_table_id: "table_id (example_env c i) = ''my-project.google_ads_data.p_CampaignStats''"
  by (simp add: table_id_def example_env_simps)

lemma example_request_fields:
  "map_of [(''start_date'', PStr ''2024-01-01''), (''end_date'', PStr ''2024-01-31'')] ''start_date''
     = Some (PStr ''2024-01-01'')"
  "map_of [(''start_date'', PStr ''2024-01-01''), (''end_date'', PStr ''2024-01-31'')] ''end_date''
     = Some (PStr ''2024-01-31'')"
  by simp_all

lemma example_fetch:
  "fetch_google_ads_data (example_env (Inr (example_client answer)) i)
     (PStr ''2024-01-01'') (PStr ''2024-01-31'') [] =
   (case answer of Inl e \<Rightarrow> Inl e | Inr stream \<Rightarrow> consume_stream [] stream, example_calls)"
  by (simp add: fetch_connected [where config = "PDict [(''use_proto_plus'', PBool True)]"
        and client = "example_client answer" and service = "\<lparr>search_stream = (\<lambda>cid q. answer)\<rparr>"]
      example_env_simps example_client_simps example_query_text example_calls_def)

lemma bit_length_values:
  "bit_length 1000000 = 20" "bit_length 1500000 = 21" "bit_length 2000000 = 21"
  by (simp_all add: bit_length.simps)

lemma binary_exponent_values:
  "binary_exponent 1500000 1000000 = 0"
  "binary_exponent 2000000 1000000 = 1"
  by (simp_all add: binary_exponent_def bit_length_values Let_def)

lemma py_truediv_values:
  "py_truediv 1500000 1000000 = 3 / 2"
  "py_truediv 2000000 1000000 = 2"
  by (simp_all add: py_truediv_def binary_exponent_values round_half_even_def Let_def)

lemma example_rows:
  "row_to_insert (example_row 1500000) = example_warehouse_row (3 / 2)"
  "row_to_insert (example_row 2000000) = example_warehouse_row 2"
  by (simp_all add: row_to_insert_def example_row_def example_warehouse_row_def py_truediv_values)

lemma py_str_int_values: "py_str_int 1 = ''1''" "py_str_int 2 = ''2''"
  by (simp_all add: py_str_int_def digits10.simps digit_char_def)

lemma row_cost:
  "py_getitem (row_to_insert r) ''cost'' =
     Inr (PFloat (Finite (py_truediv (sint (cost_micros (metrics r))) 1000000)))"
  by (simp add: row_to_insert_def)

section \<open>Decimal text denotes the number\<close>

lemma digit_value_digit_char: "d < 10 \<Longrightarrow> digit_value (digit_char d) = d"
proof -
  assume "d < 10"
  then have "d \<in> {0, 1, 2, 3, 4, 5, 6, 7, 8, 9}" by auto
  then show ?thesis by (auto simp: digit_char_def digit_value_def)
qed

lemma decimal_value_snoc: "decimal_value (s @ [c]) = 10 * decimal_value s + digit_value c"
  by (simp add: decimal_value_def)

lemma decimal_value_digits10: "decimal_value (digits10 n) = n"
proof (induction n rule: digits10.induct)
  case (1 n)
  show ?case
  proof (cases "n < 10")
    case True
    then show ?thesis
      by (subst digits10.simps) (simp add: decimal_value_def digit_value_digit_char)
  next
    case False
    with 1 have "decimal_value (digits10 (n div 10)) = n div 10" by simp
    with False show ?thesis
      by (subst digits10.simps) (simp add: decimal_value_snoc digit_value_digit_char)
  qed
qed

lemma decimal_value_py_str_int: "decimal_value (py_str_int (int n)) = n"
  by (simp add: py_str_int_def decimal_value_digits10)

section \<open>Cost conversion\<close>

text \<open>
  C1. For every record the platform returns, the row the extractor builds has as its cost
  the record's \<open>cost_micros\<close> divided by 1,000,000, the division being Python's true
  division of integers: whenever the client is built and the query is answered by batches
  \<open>bs\<close>, the extractor returns rows whose costs are, in order, the quotients of the
  records of \<open>bs\<close>. The quotient is a float, so it is the exact quotient rounded once: it
  differs from it by at most the \<open>2^53\<close>-th part of it. In the scenario of the
  specification (the request for January 2024, two records with \<open>cost_micros\<close> 1500000
  and 2000000) the loader receives exactly two rows, with cost 1.5 and 2.0, and the response
  is "Success: Loaded 2 rows.".
\<close>

theorem cost_is_cost_micros_over_million:
  assumes "yaml_safe_load E (ADS_CONFIG_STRING E) = Inr config"
    and "load_from_dict E config = Inr client"
    and "get_service client ''GoogleAdsService'' = Inr service"
    and "search_stream service (ADS_CUSTOMER_ID E) (query_text E start_date end_date)
           = Inr (iterator_of bs)"
  shows "(\<exists>rows calls.
            fetch_google_ads_data E start_date end_date [] = (Inr rows, calls)
            \<and> map (\<lambda>row. py_getitem row ''cost'') rows =
                map (\<lambda>r. Inr (PFloat (Finite (py_truediv (sint (cost_micros (metrics r))) 1000000))))
                    (concat (map results bs)))
         \<and> \<bar>py_truediv (sint (c :: 64 word)) 1000000 - real_of_int (sint c) / 1000000\<bar>
             \<le> \<bar>real_of_int (sint c) / 1000000\<bar> / 2 ^ 53
         \<and> run_job
             (example_env (Inr (example_client (Inr (iterator_of
                [\<lparr>results = [example_row 1500000, example_row 2000000]\<rparr>])))) (Inr []))
             example_request =
           (Inr (''Success: Loaded 2 rows.'', 200),
            example_calls @ [InsertRowsJson ''my-project.google_ads_data.p_CampaignStats''
                               [example_warehouse_row (3 / 2), example_warehouse_row 2]])"
proof -
  have "fetch_google_ads_data E start_date end_date [] =
          (Inr (map row_to_insert (concat (map results bs))),
           [YamlSafeLoad (ADS_CONFIG_STRING E), LoadFromDict config,
            GetService ''GoogleAdsService'',
            SearchStream (ADS_CUSTOMER_ID E) (query_text E start_date end_date)])"
    using assms(4) by (simp add: fetch_connected [OF assms(1-3)] consume_stream_iterator_of)
  then have general: "\<exists>rows calls.
            fetch_google_ads_data E start_date end_date [] = (Inr rows, calls)
            \<and> map (\<lambda>row. py_getitem row ''cost'') rows =
                map (\<lambda>r. Inr (PFloat (Finite (py_truediv (sint (cost_micros (metrics r))) 1000000))))
                    (concat (map results bs))"
    by (simp add: row_cost comp_def)
  have rounding: "\<bar>py_truediv (sint c) 1000000 - real_of_int (sint c) / 1000000\<bar>
             \<le> \<bar>real_of_int (sint c) / 1000000\<bar> / 2 ^ 53"
    using py_truediv_error [of "sint c" 1000000] by simp
  have scenario: "run_job
             (example_env (Inr (example_client (Inr (iterator_of
                [\<lparr>results = [example_row 1500000, example_row 2000000]\<rparr>])))) (Inr []))
             example_request =
           (Inr (''Success: Loaded 2 rows.'', 200),
            example_calls @ [InsertRowsJson ''my-project.google_ads_data.p_CampaignStats''
                               [example_warehouse_row (3 / 2), example_warehouse_row 2]])"
    unfolding example_request_def
    by (simp add: run_job_valid [OF example_request_fields] try_block_def example_fetch
        load_data_to_bigquery_def example_table_id example_env_simps example_rows
        py_str_int_values)
  from general rounding scenario show ?thesis by blast
qed

theorem cost_is_cost_micros_over_million_witness:
  "\<exists>rows calls.
     fetch_google_ads_data
       (example_env (Inr (example_client (Inr (iterator_of
          [\<lparr>results = [example_row 1500000]\<rparr>, \<lparr>results = [example_row 2000000]\<rparr>]))))
          (Inr []))
       (PStr ''2024-01-01'') (PStr ''2024-01-31'') [] = (Inr rows, calls)
     \<and> map (\<lambda>row. py_getitem row ''cost'') rows
         = [Inr (PFloat (Finite (3 / 2))), Inr (PFloat (Finite 2))]"
  using cost_is_cost_micros_over_million [where
      E = "example_env (Inr (example_client (Inr (iterator_of
          [\<lparr>results = [example_row 1500000]\<rparr>, \<lparr>results = [example_row 2000000]\<rparr>]))))
          (Inr [])"
      and config = "PDict [(''use_proto_plus'', PBool True)]"
      and client = "example_client (Inr (iterator_of
          [\<lparr>results = [example_row 1500000]\<rparr>, \<lparr>results = [example_row 2000000]\<rparr>]))"
      and service = "\<lparr>search_stream = (\<lambda>cid q. Inr (iterator_of
          [\<lparr>results = [example_row 1500000]\<rparr>, \<lparr>results = [example_row 2000000]\<rparr>]))\<rparr>"
      and start_date = "PStr ''2024-01-01''" and end_date = "PStr ''2024-01-31''"
      and bs = "[\<lparr>results = [example_row 1500000]\<rparr>, \<lparr>results = [example_row 2000000]\<rparr>]"]
  by (simp add: example_env_simps example_client_simps example_query_text example_row_def
      py_truediv_values)

section \<open>No data\<close>

text \<open>
  C2. For every request that carries both \<open>start_date\<close> and \<open>end_date\<close>, when the
  platform answers the query with batches that hold no record at all, the handler responds
  200 with the body "Successfully completed. No data to load." and the calls it has made
  are the four of the extractor: the warehouse is never called.
\<close>

theorem no_data_skips_loader:
  assumes "map_of kvs ''start_date'' = Some start_date"
    and "map_of kvs ''end_date'' = Some end_date"
    and "yaml_safe_load E (ADS_CONFIG_STRING E) = Inr config"
    and "load_from_dict E config = Inr client"
    and "get_service client ''GoogleAdsService'' = Inr service"
    and "search_stream service (ADS_CUSTOMER_ID E) (query_text E start_date end_date)
           = Inr (iterator_of bs)"
    and "concat (map results bs) = []"
  shows "run_job E (JsonBody (PDict kvs)) =
           (Inr (''Successfully completed. No data to load.'', 200),
            [YamlSafeLoad (ADS_CONFIG_STRING E), LoadFromDict config,
             GetService ''GoogleAdsService'',
             SearchStream (ADS_CUSTOMER_ID E) (query_text E start_date end_date)])
         \<and> loader_calls (snd (run_job E (JsonBody (PDict kvs)))) = 0"
proof -
  have "fetch_google_ads_data E start_date end_date [] =
          (Inr [], [YamlSafeLoad (ADS_CONFIG_STRING E), LoadFromDict config,
             GetService ''GoogleAdsService'',
             SearchStream (ADS_CUSTOMER_ID E) (query_text E start_date end_date)])"
    using assms(6,7) by (simp add: fetch_connected [OF assms(3-5)] consume_stream_iterator_of)
  then show ?thesis
    by (simp add: run_job_valid [OF assms(1,2)] try_block_def loader_calls_def)
qed

theorem no_data_skips_loader_witness:
  "concat (map results [\<lparr>results = []\<rparr>, \<lparr>results = []\<rparr>]) = []
   \<and> run_job
       (example_env (Inr (example_client (Inr (iterator_of
          [\<lparr>results = []\<rparr>, \<lparr>results = []\<rparr>])))) (Inr []))
       example_request
     = (Inr (''Successfully completed. No data to load.'', 200), example_calls)
   \<and> loader_calls (snd (run_job
       (example_env (Inr (example_client (Inr (iterator_of
          [\<lparr>results = []\<rparr>, \<lparr>results = []\<rparr>])))) (Inr []))
       example_request)) = 0"
  using no_data_skips_loader [where
      kvs = "[(''start_date'', PStr ''2024-01-01''), (''end_date'', PStr ''2024-01-31'')]"
      and start_date = "PStr ''2024-01-01''" and end_date = "PStr ''2024-01-31''"
      and E = "example_env (Inr (example_client (Inr (iterator_of
          [\<lparr>results = []\<rparr>, \<lparr>results = []\<rparr>])))) (Inr [])"
      and config = "PDict [(''use_proto_plus'', PBool True)]"
      and client = "example_client (Inr (iterator_of [\<lparr>results = []\<rparr>, \<lparr>results = []\<rparr>]))"
      and service = "\<lparr>search_stream =
          (\<lambda>cid q. Inr (iterator_of [\<lparr>results = []\<rparr>, \<lparr>results = []\<rparr>]))\<rparr>"
      and bs = "[\<lparr>results = []\<rparr>, \<lparr>results = []\<rparr>]"]
  by (simp add: example_env_simps example_client_simps example_query_text example_request_def
      example_calls_def loader_calls_def)

section \<open>Validation\<close>

text \<open>
  C3. The specification asks that every request whose body is absent, is not JSON, or
  parses to a payload without the field \<open>start_date\<close> or without the field
  \<open>end_date\<close> gets the 400 response, with no call to the extractor or the loader. The
  handler answers so for an absent body, for a body that is not JSON, for a falsy payload and
  for an object that lacks one of the keys (lemma \<open>validation_rejects\<close>). It does not
  for three kinds of payload that have no such field: the number 5 makes the membership test
  raise a TypeError (as does every truthy number or boolean, lemma
  \<open>truthy_scalars_escape\<close>); the array of the two strings "start_date" and "end_date"
  and the string "start_date end_date" pass both membership tests, and the subscript that
  follows raises a TypeError. All three errors are raised before the \<^verbatim>\<open>try\<close>
  block, so the handler returns no response.
\<close>

theorem validation_misses_non_object_payloads:
  "run_job E (JsonBody (PInt 5)) = (Inl TypeError, [])
   \<and> run_job E (JsonBody (PList [PStr ''start_date'', PStr ''end_date''])) = (Inl TypeError, [])
   \<and> run_job E (JsonBody (PStr ''start_date end_date'')) = (Inl TypeError, [])"
  by (simp add: run_job_def invalid_request_def sublist_dates)

section \<open>Load failures\<close>

text \<open>
  C4. When the extractor has returned a sequence of rows that is not empty and the insert
  call returns a list of per-row errors that is not empty, the loader raises an exception
  whose text is "BigQuery load job failed: " followed by the text of the reported errors,
  after its one call to the warehouse; the handler responds 500 with the body
  "An error occurred: " followed by that text. The response does not depend on how many rows
  the errors concern: there is no partial success.
\<close>

theorem insert_errors_fail_the_job:
  assumes "map_of kvs ''start_date'' = Some start_date"
    and "map_of kvs ''end_date'' = Some end_date"
    and "fetch_google_ads_data E start_date end_date [] = (Inr rows, calls)"
    and "rows \<noteq> []"
    and "insert_rows_json E (table_id E) rows = Inr errors"
    and "errors \<noteq> []"
  shows "load_data_to_bigquery E rows calls =
           (Inl (Exception (''BigQuery load job failed: '' @ py_repr E (PList errors))),
            calls @ [InsertRowsJson (table_id E) rows])
         \<and> run_job E (JsonBody (PDict kvs)) =
           (Inr (''An error occurred: BigQuery load job failed: '' @ py_repr E (PList errors), 500),
            calls @ [InsertRowsJson (table_id E) rows])"
  using assms(3-6)
  by (simp add: run_job_valid [OF assms(1,2)] try_block_def load_data_to_bigquery_def)

theorem insert_errors_fail_the_job_witness:
  "run_job
     (example_env (Inr (example_client (Inr (iterator_of
        [\<lparr>results = [example_row 1500000, example_row 2000000]\<rparr>]))))
        (Inr [PDict [(''index'', PInt 1), (''errors'', PList [PStr ''invalid'']) ]]))
     example_request
   = (Inr (''An error occurred: BigQuery load job failed: <repr>'', 500),
      example_calls @ [InsertRowsJson ''my-project.google_ads_data.p_CampaignStats''
                         [example_warehouse_row (3 / 2), example_warehouse_row 2]])"
  using insert_errors_fail_the_job [where
      kvs = "[(''start_date'', PStr ''2024-01-01''), (''end_date'', PStr ''2024-01-31'')]"
      and start_date = "PStr ''2024-01-01''" and end_date = "PStr ''2024-01-31''"
      and E = "example_env (Inr (example_client (Inr (iterator_of
        [\<lparr>results = [example_row 1500000, example_row 2000000]\<rparr>]))))
        (Inr [PDict [(''index'', PInt 1), (''errors'', PList [PStr ''invalid'']) ]])"
      and rows = "[example_warehouse_row (3 / 2), example_warehouse_row 2]"
      and calls = example_calls
      and errors = "[PDict [(''index'', PInt 1), (''errors'', PList [PStr ''invalid'']) ]]"]
  by (simp add: example_request_def example_fetch example_rows example_table_id
      example_env_simps)

section \<open>Successful loads\<close>

text \<open>
  C5. When the extractor has returned a sequence of rows that is not empty and the insert
  call reports no error, the handler responds 200 with the body "Success: Loaded N rows.",
  where N is the decimal text of the length of the extracted sequence: read back as a
  number, N is that length.
\<close>

theorem successful_load_reports_row_count:
  assumes "map_of kvs ''start_date'' = Some start_date"
    and "map_of kvs ''end_date'' = Some end_date"
    and "fetch_google_ads_data E start_date end_date [] = (Inr rows, calls)"
    and "rows \<noteq> []"
    and "insert_rows_json E (table_id E) rows = Inr []"
  shows "run_job E (JsonBody (PDict kvs)) =
           (Inr (''Success: Loaded '' @ py_str_int (int (length rows)) @ '' rows.'', 200),
            calls @ [InsertRowsJson (table_id E) rows])
         \<and> decimal_value (py_str_int (int (length rows))) = length rows"
  using assms(3-5)
  by (simp add: run_job_valid [OF assms(1,2)] try_block_def load_data_to_bigquery_def
      decimal_value_py_str_int)

theorem successful_load_reports_row_count_witness:
  "run_job
     (example_env (Inr (example_client (Inr (iterator_of
        [\<lparr>results = [example_row 1500000]\<rparr>, \<lparr>results = [example_row 2000000]\<rparr>]))))
        (Inr []))
     example_request
   = (Inr (''Success: Loaded 2 rows.'', 200),
      example_calls @ [InsertRowsJson ''my-project.google_ads_data.p_CampaignStats''
                         [example_warehouse_row (3 / 2), example_warehouse_row 2]])"
  using successful_load_reports_row_count [where
      kvs = "[(''start_date'', PStr ''2024-01-01''), (''end_date'', PStr ''2024-01-31'')]"
      and start_date = "PStr ''2024-01-01''" and end_date = "PStr ''2024-01-31''"
      and E = "example_env (Inr (example_client (Inr (iterator_of
        [\<lparr>results = [example_row 1500000]\<rparr>, \<lparr>results = [example_row 2000000]\<rparr>]))))
        (Inr [])"
      and rows = "[example_warehouse_row (3 / 2), example_warehouse_row 2]"
      and calls = example_calls]
  by (simp add: example_request_def example_fetch example_rows example_table_id
      example_env_simps py_str_int_values)

section \<open>Order of the extracted rows\<close>

text \<open>
  C6. Whenever the client is built and the query is answered by the batches \<open>bs\<close>, the
  extractor returns one row per record, in the order of the batches and, within a batch, in
  the order of its records: its result is the image of the concatenated batches under the
  row mapping. No record is dropped, repeated, moved or merged with another.
\<close>

theorem extractor_keeps_platform_order:
  assumes "yaml_safe_load E (ADS_CONFIG_STRING E) = Inr config"
    and "load_from_dict E config = Inr client"
    and "get_service client ''GoogleAdsService'' = Inr service"
    and "search_stream service (ADS_CUSTOMER_ID E) (query_text E start_date end_date)
           = Inr (iterator_of bs)"
  shows "fetch_google_ads_data E start_date end_date [] =
           (Inr (map row_to_insert (concat (map results bs))),
            [YamlSafeLoad (ADS_CONFIG_STRING E), LoadFromDict config,
             GetService ''GoogleAdsService'',
             SearchStream (ADS_CUSTOMER_ID E) (query_text E start_date end_date)])"
  using assms(4) by (simp add: fetch_connected [OF assms(1-3)] consume_stream_iterator_of)

theorem extractor_keeps_platform_order_witness:
  "fetch_google_ads_data
     (example_env (Inr (example_client (Inr (iterator_of
        [\<lparr>results = [example_row 2000000]\<rparr>, \<lparr>results = []\<rparr>,
         \<lparr>results = [example_row 1500000, example_row 2000000]\<rparr>])))) (Inr []))
     (PStr ''2024-01-01'') (PStr ''2024-01-31'') []
   = (Inr [example_warehouse_row 2, example_warehouse_row (3 / 2), example_warehouse_row 2],
      example_calls)"
  using extractor_keeps_platform_order [where
      E = "example_env (Inr (example_client (Inr (iterator_of
        [\<lparr>results = [example_row 2000000]\<rparr>, \<lparr>results = []\<rparr>,
         \<lparr>results = [example_row 1500000, example_row 2000000]\<rparr>])))) (Inr [])"
      and config = "PDict [(''use_proto_plus'', PBool True)]"
      and client = "example_client (Inr (iterator_of
        [\<lparr>results = [example_row 2000000]\<rparr>, \<lparr>results = []\<rparr>,
         \<lparr>results = [example_row 1500000, example_row 2000000]\<rparr>]))"
      and service = "\<lparr>search_stream = (\<lambda>cid q. Inr (iterator_of
        [\<lparr>results = [example_row 2000000]\<rparr>, \<lparr>results = []\<rparr>,
         \<lparr>results = [example_row 1500000, example_row 2000000]\<rparr>]))\<rparr>"
      and start_date = "PStr ''2024-01-01''" and end_date = "PStr ''2024-01-31''"
      and bs = "[\<lparr>results = [example_row 2000000]\<rparr>, \<lparr>results = []\<rparr>,
         \<lparr>results = [example_row 1500000, example_row 2000000]\<rparr>]"]
  by (simp add: example_env_simps example_client_simps example_query_text example_calls_def
      example_rows)

section \<open>Fields of a row\<close>

text \<open>
  C7. The row built for a record is a dict with exactly the six keys \<open>event_date\<close>,
  \<open>external_customer_id\<close>, \<open>campaign_id\<close>, \<open>ad_network_type\<close>, \<open>device\<close> and
  \<open>cost\<close>. Under \<open>device\<close> and \<open>ad_network_type\<close> it holds the name of the enum
  member as a string, not its number; the other four hold the record's date, account
  identifier, campaign identifier and converted cost.
\<close>

theorem warehouse_row_has_six_named_fields:
  "\<exists>items. row_to_insert r = PDict items
     \<and> map fst items = [''event_date'', ''external_customer_id'', ''campaign_id'',
                         ''ad_network_type'', ''device'', ''cost'']
     \<and> py_getitem (row_to_insert r) ''device'' = Inr (PStr (name (device (segments r))))
     \<and> py_getitem (row_to_insert r) ''device'' \<noteq> Inr (PInt (number (device (segments r))))
     \<and> py_getitem (row_to_insert r) ''ad_network_type''
           = Inr (PStr (name (ad_network_type (segments r))))
     \<and> py_getitem (row_to_insert r) ''ad_network_type''
           \<noteq> Inr (PInt (number (ad_network_type (segments r))))
     \<and> py_getitem (row_to_insert r) ''event_date'' = Inr (PStr (date (segments r)))
     \<and> py_getitem (row_to_insert r) ''external_customer_id''
           = Inr (PInt (sint (customer_id (customer r))))
     \<and> py_getitem (row_to_insert r) ''campaign_id'' = Inr (PInt (sint (campaign_id (campaign r))))
     \<and> py_getitem (row_to_insert r) ''cost''
           = Inr (PFloat (Finite (py_truediv (sint (cost_micros (metrics r))) 1000000)))"
  by (simp add: row_to_insert_def)

section \<open>The query\<close>

text \<open>
  C8. For every request that carries both dates, once the client is built the fourth call of
  the handler submits to the reporting service, for the configured account, the query that
  selects the campaign identifier, the date, the cost in micros, the device, the network
  type and the account identifier from \<open>campaign\<close>, with the filter
  \<^verbatim>\<open>segments.date BETWEEN '<start_date>' AND '<end_date>'\<close>. The two values are
  put there as an f-string formats them, with no check of their type or range; a string
  is put there unchanged, whatever it holds.
\<close>

theorem query_carries_dates_verbatim:
  assumes "map_of kvs ''start_date'' = Some start_date"
    and "map_of kvs ''end_date'' = Some end_date"
    and "yaml_safe_load E (ADS_CONFIG_STRING E) = Inr config"
    and "load_from_dict E config = Inr client"
    and "get_service client ''GoogleAdsService'' = Inr service"
  shows "take 4 (snd (run_job E (JsonBody (PDict kvs)))) =
           [YamlSafeLoad (ADS_CONFIG_STRING E), LoadFromDict config,
            GetService ''GoogleAdsService'',
            SearchStream (ADS_CUSTOMER_ID E)
              (nl @ ''        SELECT''
               @ nl @ ''            campaign.id,''
               @ nl @ ''            segments.date,''
               @ nl @ ''            metrics.cost_micros,''
               @ nl @ ''            segments.device,''
               @ nl @ ''            segments.ad_network_type,''
               @ nl @ ''            customer.id''
               @ nl @ ''        FROM campaign''
               @ nl @ ''        WHERE segments.date BETWEEN '' @ quote @ py_str E start_date @ quote
                    @ '' AND '' @ quote @ py_str E end_date @ quote
               @ nl @ ''    '')]
         \<and> py_str E (PStr s) = s"
proof -
  have calls: "snd (fetch_google_ads_data E start_date end_date []) =
          [YamlSafeLoad (ADS_CONFIG_STRING E), LoadFromDict config,
           GetService ''GoogleAdsService'',
           SearchStream (ADS_CUSTOMER_ID E) (query_text E start_date end_date)]"
    by (simp add: fetch_connected [OF assms(3-5)])
  have "take 4 (snd (try_block E start_date end_date)) =
          snd (fetch_google_ads_data E start_date end_date [])"
    using try_block_calls [of E start_date end_date] by (auto simp: calls)
  then show ?thesis
    by (simp add: run_job_valid [OF assms(1,2)] calls query_text_def)
qed

theorem query_carries_dates_verbatim_witness:
  "take 4 (snd (run_job
      (example_env (Inr (example_client (Inr (iterator_of [])))) (Inr []))
      (JsonBody (PDict [(''end_date'', PStr ''yesterday''), (''start_date'', PStr ''2024-02-30'')]))))
   = [YamlSafeLoad (Some ''use_proto_plus: true''),
      LoadFromDict (PDict [(''use_proto_plus'', PBool True)]),
      GetService ''GoogleAdsService'',
      SearchStream (Some ''1234567890'')
        (nl @ ''        SELECT''
         @ nl @ ''            campaign.id,''
         @ nl @ ''            segments.date,''
         @ nl @ ''            metrics.cost_micros,''
         @ nl @ ''            segments.device,''
         @ nl @ ''            segments.ad_network_type,''
         @ nl @ ''            customer.id''
         @ nl @ ''        FROM campaign''
         @ nl @ ''        WHERE segments.date BETWEEN '' @ quote @ ''2024-02-30'' @ quote
              @ '' AND '' @ quote @ ''yesterday'' @ quote
         @ nl @ ''    '')]"
  using query_carries_dates_verbatim [where
      kvs = "[(''end_date'', PStr ''yesterday''), (''start_date'', PStr ''2024-02-30'')]"
      and start_date = "PStr ''2024-02-30''" and end_date = "PStr ''yesterday''"
      and E = "example_env (Inr (example_client (Inr (iterator_of [])))) (Inr [])"
      and config = "PDict [(''use_proto_plus'', PBool True)]"
      and client = "example_client (Inr (iterator_of []))"
      and service = "\<lparr>search_stream = (\<lambda>cid q. Inr (iterator_of []))\<rparr>"]
  by (simp add: example_env_simps example_client_simps)

section \<open>Failures of the extractor and of the loader\<close>

text \<open>
  C9. For every request that carries both dates: when the extractor raises, the handler
  responds 500 with the body "An error occurred: " followed by the text of the exception,
  unchanged, and the warehouse has not been called; when the loader raises on rows that are
  not empty, the response is built the same way, after the one call to the warehouse; a
  client that cannot be built from its configuration is such a failure of the extractor, and
  the run stops after the two calls made so far. Nothing is tried again: the calls of a run
  are a prefix of the five stages, each at most once and in order.
\<close>

theorem failures_become_500_responses:
  assumes "map_of kvs ''start_date'' = Some start_date"
    and "map_of kvs ''end_date'' = Some end_date"
  shows "(fetch_google_ads_data E start_date end_date [] = (Inl ex, calls) \<longrightarrow>
            run_job E (JsonBody (PDict kvs)) =
              (Inr (''An error occurred: '' @ exc_str ex, 500), calls)
            \<and> loader_calls calls = 0)
       \<and> (fetch_google_ads_data E start_date end_date [] = (Inr rows, fetched) \<and> rows \<noteq> []
            \<and> load_data_to_bigquery E rows fetched = (Inl load_error, loaded) \<longrightarrow>
            run_job E (JsonBody (PDict kvs)) =
              (Inr (''An error occurred: '' @ exc_str load_error, 500), loaded)
            \<and> loader_calls loaded = 1)
       \<and> (yaml_safe_load E (ADS_CONFIG_STRING E) = Inr config
            \<and> load_from_dict E config = Inl build_error \<longrightarrow>
            run_job E (JsonBody (PDict kvs)) =
              (Inr (''An error occurred: '' @ exc_str build_error, 500),
               [YamlSafeLoad (ADS_CONFIG_STRING E), LoadFromDict config]))
       \<and> prefix (map stage_of (snd (run_job E (JsonBody (PDict kvs)))))
            [ParseConfig, BuildClient, OpenService, SubmitQuery, InsertRows]"
proof (intro conjI impI)
  assume f: "fetch_google_ads_data E start_date end_date [] = (Inl ex, calls)"
  then show "run_job E (JsonBody (PDict kvs)) =
              (Inr (''An error occurred: '' @ exc_str ex, 500), calls)"
    by (simp add: run_job_valid [OF assms] try_block_def)
  from fetch_no_insert [of E start_date end_date "[]"] f
  show "loader_calls calls = 0" by (simp add: loader_calls_def)
next
  assume h: "fetch_google_ads_data E start_date end_date [] = (Inr rows, fetched) \<and> rows \<noteq> []
            \<and> load_data_to_bigquery E rows fetched = (Inl load_error, loaded)"
  then show "run_job E (JsonBody (PDict kvs)) =
              (Inr (''An error occurred: '' @ exc_str load_error, 500), loaded)"
    by (simp add: run_job_valid [OF assms] try_block_def)
  from h fetch_no_insert [of E start_date end_date "[]"]
  have "loader_calls fetched = 0" by (simp add: loader_calls_def)
  moreover from h load_calls [of E rows fetched]
  have "loaded = fetched @ [InsertRowsJson (table_id E) rows]" by simp
  ultimately show "loader_calls loaded = 1" by (simp add: loader_calls_def)
next
  assume "yaml_safe_load E (ADS_CONFIG_STRING E) = Inr config \<and> load_from_dict E config = Inl build_error"
  then have "fetch_google_ads_data E start_date end_date [] =
               (Inl build_error, [YamlSafeLoad (ADS_CONFIG_STRING E), LoadFromDict config])"
    by (simp add: fetch_google_ads_data_def Let_def)
  then show "run_job E (JsonBody (PDict kvs)) =
              (Inr (''An error occurred: '' @ exc_str build_error, 500),
               [YamlSafeLoad (ADS_CONFIG_STRING E), LoadFromDict config])"
    by (simp add: run_job_valid [OF assms] try_block_def)
next
  show "prefix (map stage_of (snd (run_job E (JsonBody (PDict kvs)))))
            [ParseConfig, BuildClient, OpenService, SubmitQuery, InsertRows]"
    by (rule run_job_stages)
qed

theorem failures_become_500_responses_witness:
  "run_job (example_env (Inr (example_client (Inl (Exception ''quota exceeded'')))) (Inr []))
     example_request
     = (Inr (''An error occurred: quota exceeded'', 500), example_calls)
   \<and> run_job
       (example_env (Inr (example_client
          (Inr (Yield \<lparr>results = [example_row 1500000]\<rparr> (Raise (Exception ''stream reset''))))))
          (Inr []))
       example_request
     = (Inr (''An error occurred: stream reset'', 500), example_calls)
   \<and> run_job
       (example_env (Inr (example_client (Inr (iterator_of
          [\<lparr>results = [example_row 1500000]\<rparr>])))) (Inl (Exception ''table not found'')))
       example_request
     = (Inr (''An error occurred: table not found'', 500),
        example_calls @ [InsertRowsJson ''my-project.google_ads_data.p_CampaignStats''
                           [example_warehouse_row (3 / 2)]])
   \<and> run_job (example_env (Inl (Exception ''bad credentials'')) (Inr [])) example_request
     = (Inr (''An error occurred: bad credentials'', 500),
        [YamlSafeLoad (Some ''use_proto_plus: true''),
         LoadFromDict (PDict [(''use_proto_plus'', PBool True)])])"
proof -
  note rule = failures_become_500_responses [OF example_request_fields]
  have query_rejected:
    "run_job (example_env (Inr (example_client (Inl (Exception ''quota exceeded'')))) (Inr []))
       example_request
     = (Inr (''An error occurred: quota exceeded'', 500), example_calls)"
    using rule [where
        E = "example_env (Inr (example_client (Inl (Exception ''quota exceeded'')))) (Inr [])"
        and ex = "Exception ''quota exceeded''" and calls = example_calls]
    by (simp add: example_request_def example_fetch)
  have stream_broken:
    "run_job
       (example_env (Inr (example_client
          (Inr (Yield \<lparr>results = [example_row 1500000]\<rparr> (Raise (Exception ''stream reset''))))))
          (Inr []))
       example_request
     = (Inr (''An error occurred: stream reset'', 500), example_calls)"
    using rule [where
        E = "example_env (Inr (example_client
          (Inr (Yield \<lparr>results = [example_row 1500000]\<rparr> (Raise (Exception ''stream reset''))))))
          (Inr [])"
        and ex = "Exception ''stream reset''" and calls = example_calls]
    by (simp add: example_request_def example_fetch)
  have insert_raised:
    "run_job
       (example_env (Inr (example_client (Inr (iterator_of
          [\<lparr>results = [example_row 1500000]\<rparr>])))) (Inl (Exception ''table not found'')))
       example_request
     = (Inr (''An error occurred: table not found'', 500),
        example_calls @ [InsertRowsJson ''my-project.google_ads_data.p_CampaignStats''
                           [example_warehouse_row (3 / 2)]])"
    using rule [where
        E = "example_env (Inr (example_client (Inr (iterator_of
          [\<lparr>results = [example_row 1500000]\<rparr>])))) (Inl (Exception ''table not found''))"
        and rows = "[example_warehouse_row (3 / 2)]" and fetched = example_calls
        and load_error = "Exception ''table not found''"
        and loaded = "example_calls @ [InsertRowsJson ''my-project.google_ads_data.p_CampaignStats''
                           [example_warehouse_row (3 / 2)]]"]
    by (simp add: example_request_def example_fetch example_rows load_data_to_bigquery_def
        example_table_id example_env_simps)
  have client_not_built:
    "run_job (example_env (Inl (Exception ''bad credentials'')) (Inr [])) example_request
     = (Inr (''An error occurred: bad credentials'', 500),
        [YamlSafeLoad (Some ''use_proto_plus: true''),
         LoadFromDict (PDict [(''use_proto_plus'', PBool True)])])"
    using rule [where
        E = "example_env (Inl (Exception ''bad credentials'')) (Inr [])"
        and config = "PDict [(''use_proto_plus'', PBool True)]"
        and build_error = "Exception ''bad credentials''"]
    by (simp add: example_request_def example_env_simps)
  from query_rejected stream_broken insert_raised client_not_built show ?thesis by blast
qed

section \<open>Payloads that escape the validation\<close>


end
